theory Spec2Isabelle
  imports Complex_Main "HOL-Library.Monad_Syntax"
begin

section \<open>Freight quote pricing and distance resolution (quote_api.py)\<close>

text \<open>
  A shallow embedding of the quoting core of \<^verbatim>\<open>quote_api.py\<close>: the location table,
  \<^verbatim>\<open>get_mapbox_distance\<close>, \<^verbatim>\<open>fallback_distance_calculation\<close>,
  \<^verbatim>\<open>generate_static_map_url\<close> and \<^verbatim>\<open>calculate_quote\<close>.

  Conventions of the model:
  \<^item> Python floats are idealised as \<^typ>\<open>real\<close>: every arithmetic operation is exact, and
    \<^verbatim>\<open>math.sin\<close>, \<^verbatim>\<open>math.cos\<close>, \<^verbatim>\<open>math.asin\<close>, \<^verbatim>\<open>math.sqrt\<close> are the real functions.
    The domain errors of \<^verbatim>\<open>math.sqrt\<close> and \<^verbatim>\<open>math.asin\<close> are kept as failures.
  \<^item> A Python exception is the value \<open>None\<close> of an option type.
  \<^item> Strings are \<^typ>\<open>string\<close>. Lower-casing acts on the ASCII letters; the characters
    outside ASCII are left alone (Python maps some of them to other characters outside
    ASCII, which never yields the ASCII text \<^verbatim>\<open>climate_control\<close>).
  \<^item> What the process reads from outside is a parameter, collected in the record
    \<open>env\<close>: the credential, the answer of the routing service, the clock, and how the
    interpreter prints a float.
  \<^item> \<^verbatim>\<open>print\<close> calls write to the console only and are left out.
\<close>

subsection \<open>Python values\<close>

text \<open>The value \<^verbatim>\<open>response.json()\<close> yields. \<open>JNum\<close> stands for both int and float,
  \<open>JNull\<close> for \<^verbatim>\<open>None\<close>; an object is the list of its items (keys distinct).\<close>

datatype json =
    JNull
  | JBool bool
  | JNum real
  | JStr string
  | JArr "json list"
  | JObj "(string \<times> json) list"

text \<open>Truth value of an object, as \<^verbatim>\<open>if x\<close>, \<^verbatim>\<open>x and y\<close> and \<^verbatim>\<open>not x\<close> take it.\<close>

fun py_truthy :: "json \<Rightarrow> bool" where
  "py_truthy JNull = False"
| "py_truthy (JBool b) = b"
| "py_truthy (JNum x) = (x \<noteq> 0)"
| "py_truthy (JStr s) = (s \<noteq> [])"
| "py_truthy (JArr xs) = (xs \<noteq> [])"
| "py_truthy (JObj kvs) = (kvs \<noteq> [])"

text \<open>\<^verbatim>\<open>x.get(k)\<close>: only a dict has the method (AttributeError otherwise); a missing key
  gives \<^verbatim>\<open>None\<close>.\<close>

fun py_get :: "json \<Rightarrow> string \<Rightarrow> json option" where
  "py_get (JObj kvs) k = Some (case map_of kvs k of None \<Rightarrow> JNull | Some v \<Rightarrow> v)"
| "py_get _ k = None"

text \<open>\<^verbatim>\<open>x[k]\<close> with a string key: KeyError on a dict without the key, TypeError on
  anything that is not a dict.\<close>

fun py_getitem :: "json \<Rightarrow> string \<Rightarrow> json option" where
  "py_getitem (JObj kvs) k = map_of kvs k"
| "py_getitem _ k = None"

text \<open>\<^verbatim>\<open>len(x)\<close>: TypeError on \<^verbatim>\<open>None\<close>, booleans and numbers.\<close>

fun py_len :: "json \<Rightarrow> nat option" where
  "py_len (JStr s) = Some (length s)"
| "py_len (JArr xs) = Some (length xs)"
| "py_len (JObj kvs) = Some (length kvs)"
| "py_len _ = None"

text \<open>\<^verbatim>\<open>x[0]\<close>: the first element of a list or the first character of a string
  (IndexError when empty); KeyError on a dict, whose keys are strings; TypeError on the
  rest.\<close>

fun py_item0 :: "json \<Rightarrow> json option" where
  "py_item0 (JArr (x # xs)) = Some x"
| "py_item0 (JStr (c # cs)) = Some (JStr [c])"
| "py_item0 _ = None"

text \<open>The operand of \<^verbatim>\<open>*\<close> and \<^verbatim>\<open>/\<close> with a float: a number, or a boolean counting as
  0 or 1; TypeError on the rest.\<close>

fun py_number :: "json \<Rightarrow> real option" where
  "py_number (JNum x) = Some x"
| "py_number (JBool b) = Some (if b then 1 else 0)"
| "py_number _ = None"

text \<open>\<^verbatim>\<open>math.radians\<close>, \<^verbatim>\<open>math.sqrt\<close> and \<^verbatim>\<open>math.asin\<close>; the last two raise
  ValueError outside their domain.\<close>

definition radians :: "real \<Rightarrow> real" where
  "radians x = x * pi / 180"

definition py_sqrt :: "real \<Rightarrow> real option" where
  "py_sqrt x = (if x < 0 then None else Some (sqrt x))"

definition py_asin :: "real \<Rightarrow> real option" where
  "py_asin x = (if x < - 1 \<or> 1 < x then None else Some (arcsin x))"

text \<open>\<^verbatim>\<open>round(x, n)\<close>: to the nearest multiple of \<open>10\<^sup>-\<^sup>n\<close>, a tie going to the even
  neighbour.\<close>

definition py_round_int :: "real \<Rightarrow> int" where
  "py_round_int y =
     (let f = \<lfloor>y\<rfloor>; d = y - of_int f
      in if d < 1 / 2 then f else if 1 / 2 < d then f + 1 else if even f then f else f + 1)"

definition py_round :: "real \<Rightarrow> nat \<Rightarrow> real" where
  "py_round x n = of_int (py_round_int (x * 10 ^ n)) / 10 ^ n"

text \<open>\<^verbatim>\<open>s.lower()\<close> and \<^verbatim>\<open>s.replace(old, new)\<close> for one-character \<open>old\<close> and \<open>new\<close>.\<close>

definition lower_char :: "char \<Rightarrow> char" where
  "lower_char c =
     (case map_of (zip ''ABCDEFGHIJKLMNOPQRSTUVWXYZ'' ''abcdefghijklmnopqrstuvwxyz'') c of
        None \<Rightarrow> c
      | Some l \<Rightarrow> l)"

definition lower :: "string \<Rightarrow> string" where
  "lower s = map lower_char s"

definition replace_char :: "char \<Rightarrow> char \<Rightarrow> string \<Rightarrow> string" where
  "replace_char old new s = map (\<lambda>c. if c = old then new else c) s"

text \<open>\<^verbatim>\<open>str(n)\<close> of a natural number, as an f-string prints an int.\<close>

fun str_nat :: "nat \<Rightarrow> string" where
  "str_nat n =
     (if n < 10 then [''0123456789'' ! n]
      else str_nat (n div 10) @ [''0123456789'' ! (n mod 10)])"

declare str_nat.simps [simp del]

text \<open>\<^verbatim>\<open>sep.join(xs)\<close>.\<close>

fun join :: "string \<Rightarrow> string list \<Rightarrow> string" where
  "join sep [] = []"
| "join sep [x] = x"
| "join sep (x # y # ys) = x @ sep @ join sep (y # ys)"

subsection \<open>The location table\<close>

record location =
  city :: string
  state :: string
  lat :: real
  lon :: real

definition ZIP_TABLE :: "(string \<times> location) list" where
  "ZIP_TABLE = [
   (''10001'', \<lparr>city = ''New York'', state = ''NY'', lat = 40.7128, lon = - 74.0060\<rparr>),
   (''90001'', \<lparr>city = ''Los Angeles'', state = ''CA'', lat = 34.0522, lon = - 118.2437\<rparr>),
   (''90021'', \<lparr>city = ''Los Angeles'', state = ''CA'', lat = 34.0407, lon = - 118.2468\<rparr>),
   (''60601'', \<lparr>city = ''Chicago'', state = ''IL'', lat = 41.8781, lon = - 87.6298\<rparr>),
   (''77001'', \<lparr>city = ''Houston'', state = ''TX'', lat = 29.7604, lon = - 95.3698\<rparr>),
   (''77002'', \<lparr>city = ''Houston'', state = ''TX'', lat = 29.7589, lon = - 95.3677\<rparr>),
   (''85001'', \<lparr>city = ''Phoenix'', state = ''AZ'', lat = 33.4484, lon = - 112.0740\<rparr>),
   (''19103'', \<lparr>city = ''Philadelphia'', state = ''PA'', lat = 39.9526, lon = - 75.1652\<rparr>),
   (''78205'', \<lparr>city = ''San Antonio'', state = ''TX'', lat = 29.4241, lon = - 98.4936\<rparr>),
   (''78701'', \<lparr>city = ''Austin'', state = ''TX'', lat = 30.2672, lon = - 97.7431\<rparr>),
   (''78702'', \<lparr>city = ''Austin'', state = ''TX'', lat = 30.2586, lon = - 97.7242\<rparr>),
   (''92101'', \<lparr>city = ''San Diego'', state = ''CA'', lat = 32.7157, lon = - 117.1611\<rparr>),
   (''75201'', \<lparr>city = ''Dallas'', state = ''TX'', lat = 32.7767, lon = - 96.7970\<rparr>),
   (''95113'', \<lparr>city = ''San Jose'', state = ''CA'', lat = 37.3382, lon = - 121.8863\<rparr>),
   (''32202'', \<lparr>city = ''Jacksonville'', state = ''FL'', lat = 30.3322, lon = - 81.6557\<rparr>),
   (''76102'', \<lparr>city = ''Fort Worth'', state = ''TX'', lat = 32.7555, lon = - 97.3308\<rparr>),
   (''43215'', \<lparr>city = ''Columbus'', state = ''OH'', lat = 39.9612, lon = - 82.9988\<rparr>),
   (''28202'', \<lparr>city = ''Charlotte'', state = ''NC'', lat = 35.2271, lon = - 80.8431\<rparr>),
   (''94102'', \<lparr>city = ''San Francisco'', state = ''CA'', lat = 37.7749, lon = - 122.4194\<rparr>),
   (''46204'', \<lparr>city = ''Indianapolis'', state = ''IN'', lat = 39.7684, lon = - 86.1581\<rparr>),
   (''98101'', \<lparr>city = ''Seattle'', state = ''WA'', lat = 47.6062, lon = - 122.3321\<rparr>),
   (''80202'', \<lparr>city = ''Denver'', state = ''CO'', lat = 39.7392, lon = - 104.9903\<rparr>),
   (''20001'', \<lparr>city = ''Washington'', state = ''DC'', lat = 38.9072, lon = - 77.0369\<rparr>),
   (''02108'', \<lparr>city = ''Boston'', state = ''MA'', lat = 42.3601, lon = - 71.0589\<rparr>),
   (''79901'', \<lparr>city = ''El Paso'', state = ''TX'', lat = 31.7619, lon = - 106.4850\<rparr>),
   (''37219'', \<lparr>city = ''Nashville'', state = ''TN'', lat = 36.1627, lon = - 86.7816\<rparr>),
   (''48226'', \<lparr>city = ''Detroit'', state = ''MI'', lat = 42.3314, lon = - 83.0458\<rparr>),
   (''73102'', \<lparr>city = ''Oklahoma City'', state = ''OK'', lat = 35.4676, lon = - 97.5164\<rparr>),
   (''97201'', \<lparr>city = ''Portland'', state = ''OR'', lat = 45.5152, lon = - 122.6784\<rparr>),
   (''89101'', \<lparr>city = ''Las Vegas'', state = ''NV'', lat = 36.1699, lon = - 115.1398\<rparr>),
   (''38103'', \<lparr>city = ''Memphis'', state = ''TN'', lat = 35.1495, lon = - 90.0490\<rparr>),
   (''40202'', \<lparr>city = ''Louisville'', state = ''KY'', lat = 38.2527, lon = - 85.7585\<rparr>),
   (''21201'', \<lparr>city = ''Baltimore'', state = ''MD'', lat = 39.2904, lon = - 76.6122\<rparr>),
   (''53202'', \<lparr>city = ''Milwaukee'', state = ''WI'', lat = 43.0389, lon = - 87.9065\<rparr>),
   (''07102'', \<lparr>city = ''Newark'', state = ''NJ'', lat = 40.7357, lon = - 74.1724\<rparr>),
   (''87102'', \<lparr>city = ''Albuquerque'', state = ''NM'', lat = 35.0844, lon = - 106.6504\<rparr>),
   (''85701'', \<lparr>city = ''Tucson'', state = ''AZ'', lat = 32.2226, lon = - 110.9747\<rparr>),
   (''93721'', \<lparr>city = ''Fresno'', state = ''CA'', lat = 36.7378, lon = - 119.7871\<rparr>),
   (''95814'', \<lparr>city = ''Sacramento'', state = ''CA'', lat = 38.5816, lon = - 121.4944\<rparr>),
   (''64106'', \<lparr>city = ''Kansas City'', state = ''MO'', lat = 39.0997, lon = - 94.5786\<rparr>),
   (''85201'', \<lparr>city = ''Mesa'', state = ''AZ'', lat = 33.4152, lon = - 111.8315\<rparr>),
   (''30303'', \<lparr>city = ''Atlanta'', state = ''GA'', lat = 33.7490, lon = - 84.3880\<rparr>),
   (''68102'', \<lparr>city = ''Omaha'', state = ''NE'', lat = 41.2565, lon = - 95.9345\<rparr>),
   (''80903'', \<lparr>city = ''Colorado Springs'', state = ''CO'', lat = 38.8339, lon = - 104.8214\<rparr>),
   (''27601'', \<lparr>city = ''Raleigh'', state = ''NC'', lat = 35.7796, lon = - 78.6382\<rparr>),
   (''90802'', \<lparr>city = ''Long Beach'', state = ''CA'', lat = 33.7701, lon = - 118.1937\<rparr>),
   (''23451'', \<lparr>city = ''Virginia Beach'', state = ''VA'', lat = 36.8529, lon = - 75.9780\<rparr>),
   (''94612'', \<lparr>city = ''Oakland'', state = ''CA'', lat = 37.8044, lon = - 122.2711\<rparr>),
   (''55401'', \<lparr>city = ''Minneapolis'', state = ''MN'', lat = 44.9778, lon = - 93.2650\<rparr>),
   (''74103'', \<lparr>city = ''Tulsa'', state = ''OK'', lat = 36.1540, lon = - 95.9928\<rparr>),
   (''67202'', \<lparr>city = ''Wichita'', state = ''KS'', lat = 37.6872, lon = - 97.3301\<rparr>),
   (''70112'', \<lparr>city = ''New Orleans'', state = ''LA'', lat = 29.9511, lon = - 90.0715\<rparr>),
   (''33602'', \<lparr>city = ''Tampa'', state = ''FL'', lat = 27.9506, lon = - 82.4572\<rparr>)
   ]"

definition ZIP_DATABASE :: "string \<rightharpoonup> location" where
  "ZIP_DATABASE = map_of ZIP_TABLE"

subsection \<open>Request, response and environment\<close>

record DimensionsModel =
  length_in :: real
  width_in :: real
  height_in :: real

record QuoteRequest =
  origin_zip :: string
  destination_zip :: string
  weight_lbs :: real
  pieces :: int
  dimensions :: DimensionsModel
  special_services :: "string list"
  pickup_date :: string
  commodity :: string

text \<open>The dict that the two distance functions return.\<close>

record route_data =
  distance_miles :: real
  duration_hours :: real
  route_geometry :: json

record CostBreakdown =
  base_rate :: real
  fuel_surcharge :: real
  liftgate_fee :: real
  insurance :: real
  climate_control_fee :: real

record QuoteResponse =
  quote_id :: string
  total_cost :: real
  breakdown :: CostBreakdown
  transit_days :: int
  equipment_type :: string
  valid_until :: string
  terms :: string
  distance_miles :: real
  duration_hours :: real
  route_map_url :: "string option"

text \<open>What \<^verbatim>\<open>requests.get\<close> does: it raises, or it returns a response with a status
  code and a body; \<^verbatim>\<open>response.json()\<close> raises on a body that is not JSON (\<open>None\<close>).\<close>

datatype http_result =
    Request_raises
  | Response int "json option"

record env =
  MAPBOX_API_KEY :: "string option"
  requests_get :: "string \<Rightarrow> (string \<times> string) list \<Rightarrow> http_result"
  float_str :: "real \<Rightarrow> string"
  strftime_now :: string
  isoformat_plus_7_days :: string

text \<open>\<^verbatim>\<open>not MAPBOX_API_KEY\<close>: the variable is unset or empty.\<close>

definition no_api_key :: "env \<Rightarrow> bool" where
  "no_api_key e = (case MAPBOX_API_KEY e of None \<Rightarrow> True | Some k \<Rightarrow> k = [])"

definition api_key :: "env \<Rightarrow> string" where
  "api_key e = (case MAPBOX_API_KEY e of None \<Rightarrow> [] | Some k \<Rightarrow> k)"

subsection \<open>Distance resolution\<close>

text \<open>\<^verbatim>\<open>fallback_distance_calculation\<close>. \<open>None\<close> is a ValueError of \<^verbatim>\<open>math.sqrt\<close> or
  \<^verbatim>\<open>math.asin\<close>.\<close>

definition haversine_a :: "location \<Rightarrow> location \<Rightarrow> real" where
  "haversine_a loc1 loc2 =
     (let lat1 = radians (lat loc1); lon1 = radians (lon loc1);
          lat2 = radians (lat loc2); lon2 = radians (lon loc2);
          dlat = lat2 - lat1;
          dlon = lon2 - lon1
      in (sin (dlat / 2))\<^sup>2 + cos lat1 * cos lat2 * (sin (dlon / 2))\<^sup>2)"

definition fallback_distance_calculation :: "string \<Rightarrow> string \<Rightarrow> route_data option" where
  "fallback_distance_calculation o_zip d_zip =
     (case (ZIP_DATABASE o_zip, ZIP_DATABASE d_zip) of
        (Some loc1, Some loc2) \<Rightarrow>
          do {
            r \<leftarrow> py_sqrt (haversine_a loc1 loc2);
            s \<leftarrow> py_asin r;
            let c = 2 * s;
            let distance = 3959 * c;
            let duration = distance / 60;
            Some \<lparr>route_data.distance_miles = distance,
                  route_data.duration_hours = duration,
                  route_geometry = JNull\<rparr>
          }
      | _ \<Rightarrow>
          Some \<lparr>route_data.distance_miles = 1000.0,
                route_data.duration_hours = 16.0,
                route_geometry = JNull\<rparr>)"

text \<open>The body of the \<^verbatim>\<open>try\<close> block after \<^verbatim>\<open>data = response.json()\<close>: it returns a
  route, it raises, or it falls through to the error message.\<close>

datatype attempt =
    Raised
  | Fell_through
  | Returned route_data

definition read_route :: "json \<Rightarrow> route_data option" where
  "read_route routes =
     do {
       route \<leftarrow> py_item0 routes;
       d \<leftarrow> py_getitem route ''distance'';
       meters \<leftarrow> py_number d;
       t \<leftarrow> py_getitem route ''duration'';
       seconds \<leftarrow> py_number t;
       g \<leftarrow> py_getitem route ''geometry'';
       Some \<lparr>route_data.distance_miles = meters * 0.000621371,
             route_data.duration_hours = seconds / 3600,
             route_geometry = g\<rparr>
     }"

definition read_directions :: "json \<Rightarrow> attempt" where
  "read_directions data =
     (case py_get data ''routes'' of
        None \<Rightarrow> Raised
      | Some r \<Rightarrow>
          if \<not> py_truthy r then Fell_through
          else (case py_getitem data ''routes'' of
                  None \<Rightarrow> Raised
                | Some routes \<Rightarrow>
                    (case py_len routes of
                       None \<Rightarrow> Raised
                     | Some n \<Rightarrow>
                         if \<not> 0 < n then Fell_through
                         else (case read_route routes of
                                 None \<Rightarrow> Raised
                               | Some res \<Rightarrow> Returned res))))"

definition directions_url :: "env \<Rightarrow> location \<Rightarrow> location \<Rightarrow> string" where
  "directions_url e origin dest =
     ''https://api.mapbox.com/directions/v5/mapbox/driving/''
       @ float_str e (lon origin) @ '','' @ float_str e (lat origin) @ '';''
       @ float_str e (lon dest) @ '','' @ float_str e (lat dest)"

definition directions_params :: "env \<Rightarrow> (string \<times> string) list" where
  "directions_params e =
     [(''access_token'', api_key e), (''geometries'', ''geojson''), (''overview'', ''full'')]"

definition get_mapbox_distance :: "env \<Rightarrow> string \<Rightarrow> string \<Rightarrow> route_data option" where
  "get_mapbox_distance e o_zip d_zip =
     (if no_api_key e then fallback_distance_calculation o_zip d_zip
      else (case (ZIP_DATABASE o_zip, ZIP_DATABASE d_zip) of
              (Some origin, Some dest) \<Rightarrow>
                (case requests_get e (directions_url e origin dest) (directions_params e) of
                   Request_raises \<Rightarrow> fallback_distance_calculation o_zip d_zip
                 | Response status_code body \<Rightarrow>
                     if status_code = 200 then
                       (case body of
                          None \<Rightarrow> fallback_distance_calculation o_zip d_zip
                        | Some data \<Rightarrow>
                            (case read_directions data of
                               Returned res \<Rightarrow> Some res
                             | _ \<Rightarrow> fallback_distance_calculation o_zip d_zip))
                     else fallback_distance_calculation o_zip d_zip)
            | _ \<Rightarrow> fallback_distance_calculation o_zip d_zip))"

subsection \<open>The route map\<close>

definition zoom_level :: "real \<Rightarrow> nat" where
  "zoom_level max_diff =
     (if max_diff < 1 then 8
      else if max_diff < 3 then 6
      else if max_diff < 7 then 5
      else if max_diff < 15 then 4
      else 3)"

definition generate_static_map_url :: "env \<Rightarrow> string \<Rightarrow> string \<Rightarrow> json \<Rightarrow> string option" where
  "generate_static_map_url e o_zip d_zip geometry =
     (if no_api_key e then None
      else (case (ZIP_DATABASE o_zip, ZIP_DATABASE d_zip) of
              (Some origin, Some dest) \<Rightarrow>
                (let width = 600;
                     height = 400;
                     center_lon = (lon origin + lon dest) / 2;
                     center_lat = (lat origin + lat dest) / 2;
                     lon_diff = \<bar>lon origin - lon dest\<bar>;
                     lat_diff = \<bar>lat origin - lat dest\<bar>;
                     max_diff = max lon_diff lat_diff;
                     zoom = zoom_level max_diff;
                     overlays =
                       [''pin-s-a+00ff00('' @ float_str e (lon origin) @ '',''
                          @ float_str e (lat origin) @ '')'',
                        ''pin-s-b+ff0000('' @ float_str e (lon dest) @ '',''
                          @ float_str e (lat dest) @ '')'']
                       @ (if py_truthy geometry \<and> \<not> no_api_key e
                          then [''path-5+0000ff-0.6('' @ float_str e (lon origin) @ '',''
                                  @ float_str e (lat origin) @ '','' @ float_str e (lon dest)
                                  @ '','' @ float_str e (lat dest) @ '')'']
                          else []);
                     overlay_str = join '','' overlays
                 in Some (''https://api.mapbox.com/styles/v1/mapbox/streets-v11/static/''
                          @ overlay_str @ ''/''
                          @ float_str e center_lon @ '','' @ float_str e center_lat @ '',''
                          @ str_nat zoom @ ''/'' @ str_nat width @ ''x'' @ str_nat height
                          @ ''?access_token='' @ api_key e))
            | _ \<Rightarrow> None))"

subsection \<open>Pricing\<close>

text \<open>The local variables of \<^verbatim>\<open>calculate_quote\<close>, each as a function of what it is
  computed from, in the order of the source.\<close>

definition calc_base_rate :: "real \<Rightarrow> real \<Rightarrow> real" where
  "calc_base_rate distance weight = max (distance * 2.0 + weight * 0.50) 500.0"

definition calc_fuel_surcharge :: "real \<Rightarrow> real" where
  "calc_fuel_surcharge base = base * 0.15"

definition normalized_services :: "string list \<Rightarrow> string list" where
  "normalized_services services =
     map (\<lambda>s. replace_char CHR '' '' CHR ''_'' (lower s)) services"

definition calc_liftgate_fee :: "string list \<Rightarrow> real" where
  "calc_liftgate_fee services = (if ''liftgate'' \<in> set services then 75.0 else 0.0)"

definition calc_climate_control_fee :: "string list \<Rightarrow> real" where
  "calc_climate_control_fee services =
     (if ''climate_control'' \<in> set (normalized_services services) then 150.0 else 0.0)"

definition calc_insurance :: "real \<Rightarrow> real" where
  "calc_insurance weight = (let declared_value = (weight / 100) * 5000 in declared_value * 0.025)"

definition calc_total_cost :: "real \<Rightarrow> real \<Rightarrow> string list \<Rightarrow> real" where
  "calc_total_cost distance weight services =
     calc_base_rate distance weight
       + calc_fuel_surcharge (calc_base_rate distance weight)
       + calc_liftgate_fee services
       + calc_climate_control_fee services
       + calc_insurance weight"

definition calc_transit_days :: "real \<Rightarrow> int" where
  "calc_transit_days hours = max 1 (min 7 \<lceil>hours / 8\<rceil>)"

definition calc_equipment_type :: "real \<Rightarrow> string list \<Rightarrow> string" where
  "calc_equipment_type weight services =
     (if weight > 10000 then ''flatbed''
      else if ''climate_control'' \<in> set (normalized_services services) then ''reefer''
      else ''dry_van'')"

definition calculate_quote :: "env \<Rightarrow> QuoteRequest \<Rightarrow> QuoteResponse option" where
  "calculate_quote e request =
     do {
       rd \<leftarrow> get_mapbox_distance e (origin_zip request) (destination_zip request);
       let distance = route_data.distance_miles rd;
       let hours = route_data.duration_hours rd;
       let geometry = route_geometry rd;
       let weight = weight_lbs request;
       let services = special_services request;
       let base = calc_base_rate distance weight;
       Some \<lparr>quote_id = ''QT-'' @ strftime_now e,
             total_cost = py_round (calc_total_cost distance weight services) 2,
             breakdown = \<lparr>base_rate = py_round base 2,
                          fuel_surcharge = py_round (calc_fuel_surcharge base) 2,
                          liftgate_fee = calc_liftgate_fee services,
                          insurance = py_round (calc_insurance weight) 2,
                          climate_control_fee = calc_climate_control_fee services\<rparr>,
             transit_days = calc_transit_days hours,
             equipment_type = calc_equipment_type weight services,
             valid_until = isoformat_plus_7_days e @ ''Z'',
             terms = ''Payment due upon delivery'',
             distance_miles = py_round distance 1,
             duration_hours = py_round hours 1,
             route_map_url =
               generate_static_map_url e (origin_zip request) (destination_zip request) geometry\<rparr>
     }"

subsection \<open>Notions of the specification\<close>

text \<open>The haversine formula as the specification names it: the great-circle distance in
  miles between two points given in degrees, on a sphere of radius 3959 miles,
  \<open>2 R arcsin (sqrt (sin\<^sup>2 (\<Delta>lat / 2) + cos lat1 cos lat2 sin\<^sup>2 (\<Delta>lon / 2)))\<close>.\<close>

definition great_circle_miles :: "real \<Rightarrow> real \<Rightarrow> real \<Rightarrow> real \<Rightarrow> real" where
  "great_circle_miles lat1 lon1 lat2 lon2 =
     2 * 3959 * arcsin (sqrt ((sin (radians (lat2 - lat1) / 2))\<^sup>2
        + cos (radians lat1) * cos (radians lat2) * (sin (radians (lon2 - lon1) / 2))\<^sup>2))"

text \<open>\<open>clamp x lo hi\<close> of the specification.\<close>

definition clamp :: "int \<Rightarrow> int \<Rightarrow> int \<Rightarrow> int" where
  "clamp x lo hi = (if x < lo then lo else if hi < x then hi else x)"



text \<open>The live routing service cannot be used for a pair of known locations: the
  credential is missing, the request raises (a network error), or the response has a
  status other than 200, which covers every status outside 2xx.\<close>

definition service_unusable :: "env \<Rightarrow> location \<Rightarrow> location \<Rightarrow> bool" where
  "service_unusable e origin dest =
     (no_api_key e \<or>
      (case requests_get e (directions_url e origin dest) (directions_params e) of
         Request_raises \<Rightarrow> True
       | Response status_code body \<Rightarrow> status_code \<noteq> 200))"

subsection \<open>Concrete requests and environments\<close>

text \<open>The inputs at which the results below are evaluated. In these environments a float
  prints as \<^verbatim>\<open>0.0\<close>; the printed form reaches only the request URL and the map URL,
  never a number of the quote.\<close>

definition example_dimensions :: DimensionsModel where
  "example_dimensions = \<lparr>length_in = 48, width_in = 40, height_in = 36\<rparr>"

definition request_la_chicago :: QuoteRequest where
  "request_la_chicago =
     \<lparr>origin_zip = ''90021'', destination_zip = ''60601'', weight_lbs = 800, pieces = 2,
      dimensions = example_dimensions, special_services = [''liftgate''],
      pickup_date = ''2024-01-15'', commodity = ''Electronics''\<rparr>"

definition request_heavy_reefer :: QuoteRequest where
  "request_heavy_reefer =
     \<lparr>origin_zip = ''90021'', destination_zip = ''60601'', weight_lbs = 15000, pieces = 2,
      dimensions = example_dimensions, special_services = [''Climate Control'', ''liftgate''],
      pickup_date = ''2024-01-15'', commodity = ''Produce''\<rparr>"

definition request_unknown_zips :: QuoteRequest where
  "request_unknown_zips =
     \<lparr>origin_zip = ''00000'', destination_zip = ''99999'', weight_lbs = 800, pieces = 2,
      dimensions = example_dimensions, special_services = [''Climate Control'', ''Liftgate''],
      pickup_date = ''2024-01-15'', commodity = ''Produce''\<rparr>"

definition request_same_zip :: QuoteRequest where
  "request_same_zip =
     \<lparr>origin_zip = ''90021'', destination_zip = ''90021'', weight_lbs = 1, pieces = 1,
      dimensions = example_dimensions, special_services = [],
      pickup_date = ''2024-01-15'', commodity = ''Documents''\<rparr>"

definition env_no_key :: env where
  "env_no_key =
     \<lparr>MAPBOX_API_KEY = None,
      requests_get = (\<lambda>url params. Request_raises),
      float_str = (\<lambda>x. ''0.0''),
      strftime_now = ''20240115-093000'',
      isoformat_plus_7_days = ''2024-01-22T09:30:00.000000''\<rparr>"

definition env_service_down :: env where
  "env_service_down =
     env_no_key\<lparr>MAPBOX_API_KEY := Some ''pk.test'',
                requests_get := (\<lambda>url params. Response 503 None)\<rparr>"

text \<open>A response of the routing service with one route.\<close>

definition live_answer :: "real \<Rightarrow> real \<Rightarrow> json" where
  "live_answer meters seconds =
     JObj [(''routes'',
            JArr [JObj [(''distance'', JNum meters), (''duration'', JNum seconds),
                        (''geometry'', JObj [(''type'', JStr ''LineString'')])]]),
           (''code'', JStr ''Ok'')]"

definition env_live :: env where
  "env_live =
     env_no_key\<lparr>MAPBOX_API_KEY := Some ''pk.test'',
                requests_get :=
                  (\<lambda>url params. Response 200 (Some (live_answer 3000000 115200)))\<rparr>"


definition request_featherweight :: QuoteRequest where
  "request_featherweight =
     \<lparr>origin_zip = ''00000'', destination_zip = ''99999'', weight_lbs = 0.003, pieces = 1,
      dimensions = example_dimensions, special_services = [],
      pickup_date = ''2024-01-15'', commodity = ''Samples''\<rparr>"

section \<open>Properties\<close>

subsection \<open>The haversine term lies in the unit interval\<close>

text \<open>\<^verbatim>\<open>math.sqrt\<close> and \<^verbatim>\<open>math.asin\<close> are applied to the term \<open>a\<close> of the haversine
  formula without a guard; they do not raise because \<open>0 \<le> a \<le> 1\<close> for all coordinates.\<close>

lemma half_angle_sq: "(sin (x / 2))\<^sup>2 = (1 - cos x) / 2" for x :: real
  using cos_double_sin [of "x / 2"] by simp

lemma hav_lower: "0 \<le> (sin ((b - a) / 2))\<^sup>2 + cos a * cos b * (sin (d / 2))\<^sup>2" for a b d :: real
proof (cases "0 \<le> cos a * cos b")
  case True
  then have "0 \<le> cos a * cos b * (sin (d / 2))\<^sup>2" by simp
  then show ?thesis by (simp add: add_nonneg_nonneg)
next
  case False
  then have neg: "cos a * cos b \<le> 0" by simp
  have s1: "(sin (d / 2))\<^sup>2 \<le> 1" by (simp add: abs_square_le_1)
  have "cos a * cos b \<le> cos a * cos b * (sin (d / 2))\<^sup>2"
    using neg s1 by (metis mult.right_neutral mult_left_mono_neg)
  moreover have "(sin ((b - a) / 2))\<^sup>2 + cos a * cos b = (1 + cos (a + b)) / 2"
    by (simp add: half_angle_sq cos_diff cos_add field_simps)
  moreover have "0 \<le> (1 + cos (a + b)) / 2"
  proof -
    have "0 \<le> 1 + cos (a + b)" using cos_ge_minus_one [of "a + b"] by linarith
    then show ?thesis by simp
  qed
  ultimately show ?thesis by linarith
qed

lemma hav_upper: "(sin ((b - a) / 2))\<^sup>2 + cos a * cos b * (sin (d / 2))\<^sup>2 \<le> 1" for a b d :: real
proof (cases "0 \<le> cos a * cos b")
  case True
  have s1: "(sin (d / 2))\<^sup>2 \<le> 1" by (simp add: abs_square_le_1)
  have "cos a * cos b * (sin (d / 2))\<^sup>2 \<le> cos a * cos b"
    using True s1 by (metis mult.right_neutral mult_left_mono)
  moreover have "(sin ((b - a) / 2))\<^sup>2 + cos a * cos b = (1 + cos (a + b)) / 2"
    by (simp add: half_angle_sq cos_diff cos_add field_simps)
  moreover have "(1 + cos (a + b)) / 2 \<le> 1"
  proof -
    have "1 + cos (a + b) \<le> 2" using cos_le_one [of "a + b"] by linarith
    then show ?thesis by simp
  qed
  ultimately show ?thesis by linarith
next
  case False
  then have "cos a * cos b * (sin (d / 2))\<^sup>2 \<le> 0"
    by (simp add: mult_nonpos_nonneg)
  moreover have "(sin ((b - a) / 2))\<^sup>2 \<le> 1" by (simp add: abs_square_le_1)
  ultimately show ?thesis by linarith
qed

lemma haversine_a_bounds: "0 \<le> haversine_a l1 l2 \<and> haversine_a l1 l2 \<le> 1"
  unfolding haversine_a_def Let_def using hav_lower hav_upper by blast

lemma haversine_a_sym: "haversine_a l1 l2 = haversine_a l2 l1"
proof -
  have "(sin ((x - y) / 2))\<^sup>2 = (sin ((y - x) / 2))\<^sup>2" for x y :: real
    by (simp add: half_angle_sq cos_diff mult.commute)
  then show ?thesis
    unfolding haversine_a_def Let_def by (simp add: mult.commute)
qed

subsection \<open>Rounding to cents\<close>





subsection \<open>The distance functions return\<close>

lemma fallback_known:
  assumes "ZIP_DATABASE a = Some l1" and "ZIP_DATABASE b = Some l2"
  shows "fallback_distance_calculation a b =
     Some \<lparr>route_data.distance_miles = 3959 * (2 * arcsin (sqrt (haversine_a l1 l2))),
           route_data.duration_hours = 3959 * (2 * arcsin (sqrt (haversine_a l1 l2))) / 60,
           route_geometry = JNull\<rparr>"
proof -
  have a0: "0 \<le> haversine_a l1 l2" and a1: "haversine_a l1 l2 \<le> 1"
    using haversine_a_bounds by blast+
  have s0: "\<not> sqrt (haversine_a l1 l2) < - 1"
    using real_sqrt_ge_zero [OF a0] by linarith
  have s1: "\<not> 1 < sqrt (haversine_a l1 l2)" using a1 by simp
  have "py_sqrt (haversine_a l1 l2) = Some (sqrt (haversine_a l1 l2))"
    using a0 by (simp add: py_sqrt_def)
  moreover have "py_asin (sqrt (haversine_a l1 l2)) = Some (arcsin (sqrt (haversine_a l1 l2)))"
    using s0 s1 unfolding py_asin_def by (simp only: simp_thms if_False)
  ultimately show ?thesis
    using assms by (simp add: fallback_distance_calculation_def Let_def)
qed

lemma fallback_unknown:
  assumes "ZIP_DATABASE a = None \<or> ZIP_DATABASE b = None"
  shows "fallback_distance_calculation a b =
     Some \<lparr>route_data.distance_miles = 1000, route_data.duration_hours = 16,
           route_geometry = JNull\<rparr>"
  using assms by (auto simp: fallback_distance_calculation_def split: option.splits)

lemma arcsin_sqrt_haversine_nonneg: "0 \<le> arcsin (sqrt (haversine_a l1 l2))"
proof -
  have "0 \<le> haversine_a l1 l2" and "haversine_a l1 l2 \<le> 1"
    using haversine_a_bounds by blast+
  then have "sqrt (haversine_a l1 l2) \<in> {0..1}" by simp
  then show ?thesis by (rule arcsin_nonneg)
qed

lemma fallback_total_nonneg:
  "\<exists>r. fallback_distance_calculation a b = Some r
       \<and> 0 \<le> route_data.distance_miles r \<and> 0 \<le> route_data.duration_hours r"
proof (cases "ZIP_DATABASE a = None \<or> ZIP_DATABASE b = None")
  case True
  then show ?thesis by (simp add: fallback_unknown)
next
  case False
  then obtain l1 l2 where "ZIP_DATABASE a = Some l1" and "ZIP_DATABASE b = Some l2" by auto
  then show ?thesis
    using arcsin_sqrt_haversine_nonneg [of l1 l2] by (simp add: fallback_known)
qed

lemma get_mapbox_distance_cases:
  "get_mapbox_distance e a b = fallback_distance_calculation a b
   \<or> (\<exists>l1 l2 data res.
        \<not> no_api_key e \<and> ZIP_DATABASE a = Some l1 \<and> ZIP_DATABASE b = Some l2
        \<and> requests_get e (directions_url e l1 l2) (directions_params e) = Response 200 (Some data)
        \<and> read_directions data = Returned res
        \<and> get_mapbox_distance e a b = Some res)"
  unfolding get_mapbox_distance_def
  by (auto split: option.splits http_result.splits attempt.splits)


lemma get_mapbox_distance_total: "\<exists>r. get_mapbox_distance e a b = Some r"
  using get_mapbox_distance_cases [of e a b] fallback_total_nonneg [of a b] by auto

lemma get_mapbox_distance_unusable:
  assumes "ZIP_DATABASE a = Some l1" and "ZIP_DATABASE b = Some l2" and "service_unusable e l1 l2"
  shows "get_mapbox_distance e a b = fallback_distance_calculation a b"
  using assms unfolding get_mapbox_distance_def service_unusable_def
  by (auto split: http_result.splits)

lemma get_mapbox_distance_unknown:
  assumes "ZIP_DATABASE a = None \<or> ZIP_DATABASE b = None"
  shows "get_mapbox_distance e a b = fallback_distance_calculation a b"
  using assms unfolding get_mapbox_distance_def
  by (auto split: option.splits)

subsection \<open>The source's haversine is the formula of the specification\<close>

lemma great_circle_miles_eq:
  "great_circle_miles (lat l1) (lon l1) (lat l2) (lon l2) = 3959 * (2 * arcsin (sqrt (haversine_a l1 l2)))"
  unfolding great_circle_miles_def haversine_a_def Let_def radians_def
  by (simp add: algebra_simps diff_divide_distrib)

subsection \<open>The quote as a function of the resolved route\<close>

lemma py_round_int_ge_floor: "\<lfloor>y\<rfloor> \<le> py_round_int y"
  unfolding py_round_int_def Let_def by simp

lemma py_round_ge_500: assumes "500 \<le> x" shows "500 \<le> py_round x 2"
proof -
  have "50000 \<le> \<lfloor>x * 100\<rfloor>" using assms by (simp add: le_floor_iff)
  then have "50000 \<le> py_round_int (x * 100)" using py_round_int_ge_floor [of "x * 100"] by linarith
  then have "(50000 :: real) \<le> of_int (py_round_int (x * 100))" by linarith
  then show ?thesis unfolding py_round_def by simp
qed

lemma calculate_quote_eq:
  assumes "get_mapbox_distance e (origin_zip r) (destination_zip r) = Some rd"
  shows "calculate_quote e r =
    Some \<lparr>quote_id = ''QT-'' @ strftime_now e,
          total_cost = py_round (calc_total_cost (route_data.distance_miles rd) (weight_lbs r) (special_services r)) 2,
          breakdown = \<lparr>base_rate = py_round (calc_base_rate (route_data.distance_miles rd) (weight_lbs r)) 2,
                       fuel_surcharge = py_round (calc_fuel_surcharge (calc_base_rate (route_data.distance_miles rd) (weight_lbs r))) 2,
                       liftgate_fee = calc_liftgate_fee (special_services r),
                       insurance = py_round (calc_insurance (weight_lbs r)) 2,
                       climate_control_fee = calc_climate_control_fee (special_services r)\<rparr>,
          transit_days = calc_transit_days (route_data.duration_hours rd),
          equipment_type = calc_equipment_type (weight_lbs r) (special_services r),
          valid_until = isoformat_plus_7_days e @ ''Z'',
          terms = ''Payment due upon delivery'',
          distance_miles = py_round (route_data.distance_miles rd) 1,
          duration_hours = py_round (route_data.duration_hours rd) 1,
          route_map_url = generate_static_map_url e (origin_zip r) (destination_zip r) (route_geometry rd)\<rparr>"
  using assms by (simp add: calculate_quote_def Let_def)

subsection \<open>Evaluation at the concrete inputs\<close>

lemma zip_known:
  "ZIP_DATABASE ''90021'' = Some \<lparr>city = ''Los Angeles'', state = ''CA'', lat = 34.0407, lon = - 118.2468\<rparr>"
  "ZIP_DATABASE ''60601'' = Some \<lparr>city = ''Chicago'', state = ''IL'', lat = 41.8781, lon = - 87.6298\<rparr>"
  by (simp_all add: ZIP_DATABASE_def ZIP_TABLE_def)

lemma zip_unknown: "ZIP_DATABASE ''00000'' = None" "ZIP_DATABASE ''99999'' = None"
  by (simp_all add: ZIP_DATABASE_def ZIP_TABLE_def)

lemma read_live_answer:
  "read_directions (live_answer m s) =
     Returned \<lparr>route_data.distance_miles = m * 0.000621371, route_data.duration_hours = s / 3600,
               route_geometry = JObj [(''type'', JStr ''LineString'')]\<rparr>"
  by (simp add: read_directions_def read_route_def live_answer_def)

lemma resolve_live: "get_mapbox_distance env_live ''90021'' ''60601'' =
   Some \<lparr>route_data.distance_miles = 1864.113, route_data.duration_hours = 32,
         route_geometry = JObj [(''type'', JStr ''LineString'')]\<rparr>"
  by (simp add: get_mapbox_distance_def env_live_def env_no_key_def no_api_key_def
      read_live_answer zip_known)


lemma resolve_unknown: "get_mapbox_distance env_no_key ''00000'' ''99999'' =
   Some \<lparr>route_data.distance_miles = 1000, route_data.duration_hours = 16, route_geometry = JNull\<rparr>"
  by (simp add: get_mapbox_distance_def env_no_key_def no_api_key_def
      fallback_distance_calculation_def zip_unknown)

lemma quote_unknown_zips: "calculate_quote env_no_key request_unknown_zips =
    Some \<lparr>quote_id = ''QT-20240115-093000'', total_cost = 3910,
         breakdown =
           \<lparr>base_rate = 2400, fuel_surcharge = 360, liftgate_fee = 0,
              insurance = 1000, climate_control_fee = 150\<rparr>,
         transit_days = 2, equipment_type = ''reefer'',
         valid_until = ''2024-01-22T09:30:00.000000Z'',
         terms = ''Payment due upon delivery'', distance_miles = 1000,
         duration_hours = 16, route_map_url = None\<rparr>"
  apply (simp add: calculate_quote_def request_unknown_zips_def resolve_unknown)
  apply (simp add: zip_unknown calc_total_cost_def calc_base_rate_def calc_fuel_surcharge_def calc_liftgate_fee_def
     calc_climate_control_fee_def calc_insurance_def calc_transit_days_def calc_equipment_type_def
     normalized_services_def lower_def lower_char_def replace_char_def py_round_def py_round_int_def
     generate_static_map_url_def no_api_key_def env_no_key_def)
  done

lemma quote_heavy_live: "calculate_quote env_live request_heavy_reefer =
    Some \<lparr>quote_id = ''QT-20240115-093000'', total_cost = 31887.46,
         breakdown =
           \<lparr>base_rate = 11228.23, fuel_surcharge = 1684.23,
              liftgate_fee = 75, insurance = 18750,
              climate_control_fee = 150\<rparr>,
         transit_days = 4, equipment_type = ''flatbed'',
         valid_until = ''2024-01-22T09:30:00.000000Z'',
         terms = ''Payment due upon delivery'', distance_miles = 1864.1,
         duration_hours = 32,
         route_map_url =
           Some
            ''https://api.mapbox.com/styles/v1/mapbox/streets-v11/static/pin-s-a+00ff00(0.0,0.0),pin-s-b+ff0000(0.0,0.0),path-5+0000ff-0.6(0.0,0.0,0.0,0.0)/0.0,0.0,3/600x400?access_token=pk.test''\<rparr>"
  apply (simp add: calculate_quote_def request_heavy_reefer_def resolve_live)
  apply (simp add: zip_known calc_total_cost_def calc_base_rate_def calc_fuel_surcharge_def calc_liftgate_fee_def
     calc_climate_control_fee_def calc_insurance_def calc_transit_days_def calc_equipment_type_def
     normalized_services_def lower_def lower_char_def replace_char_def py_round_def py_round_int_def
     generate_static_map_url_def no_api_key_def api_key_def env_live_def env_no_key_def zoom_level_def str_nat.simps)
  done

lemma haversine_a_same: "haversine_a l l = 0"
  by (simp add: haversine_a_def)

lemma resolve_same_zip: "get_mapbox_distance env_no_key ''90021'' ''90021'' =
   Some \<lparr>route_data.distance_miles = 0, route_data.duration_hours = 0, route_geometry = JNull\<rparr>"
  by (simp add: get_mapbox_distance_def env_no_key_def no_api_key_def
      fallback_known [OF zip_known(1) zip_known(1)] haversine_a_same)

lemma quote_same_zip: "calculate_quote env_no_key request_same_zip =
    Some \<lparr>quote_id = ''QT-20240115-093000'', total_cost = 576.25,
         breakdown =
           \<lparr>base_rate = 500, fuel_surcharge = 75, liftgate_fee = 0,
              insurance = 1.25, climate_control_fee = 0\<rparr>,
         transit_days = 1, equipment_type = ''dry_van'',
         valid_until = ''2024-01-22T09:30:00.000000Z'',
         terms = ''Payment due upon delivery'', distance_miles = 0,
         duration_hours = 0, route_map_url = None\<rparr>"
  apply (simp add: calculate_quote_def request_same_zip_def resolve_same_zip)
  apply (simp add: calc_total_cost_def calc_base_rate_def calc_fuel_surcharge_def calc_liftgate_fee_def
     calc_climate_control_fee_def calc_insurance_def calc_transit_days_def calc_equipment_type_def
     normalized_services_def py_round_def py_round_int_def
     generate_static_map_url_def no_api_key_def env_no_key_def)
  done

section \<open>The claims of the specification\<close>

subsection \<open>C1: the total is the sum of the breakdown\<close>



text \<open>The tolerance is needed: the rounded parts of a quote can add up to a cent less
  than the rounded total.\<close>

lemma breakdown_may_differ_by_a_cent:
  "\<exists>q. calculate_quote env_no_key request_featherweight = Some q
     \<and> total_cost q = 2300.01
     \<and> base_rate (breakdown q) + fuel_surcharge (breakdown q) + liftgate_fee (breakdown q)
        + climate_control_fee (breakdown q) + insurance (breakdown q) = 2300"
  apply (simp add: calculate_quote_def request_featherweight_def resolve_unknown)
  apply (simp add: calc_total_cost_def calc_base_rate_def calc_fuel_surcharge_def
     calc_liftgate_fee_def calc_climate_control_fee_def calc_insurance_def
     normalized_services_def py_round_def py_round_int_def)
  done



subsection \<open>C2: the base rate and its floor\<close>

text \<open>
  Claim C2. For every distance and weight, the base rate is
  \<open>max (distance * 2.0 + weight * 0.50) 500.0\<close> and so never below 500.0; in every quote
  the base rate of the response is that value, computed from the resolved distance and the
  weight of the request, rounded to two decimals, and is not below 500.0 either. No
  assumption on weight or distance is needed; in particular it holds for \<open>weight > 0\<close>
  and \<open>distance \<ge> 0\<close>.
\<close>

theorem base_rate_floor:
  "calc_base_rate distance weight = max (distance * 2.0 + weight * 0.50) 500.0
   \<and> 500.0 \<le> calc_base_rate distance weight
   \<and> (\<exists>rd q. get_mapbox_distance e (origin_zip r) (destination_zip r) = Some rd
         \<and> calculate_quote e r = Some q
         \<and> base_rate (breakdown q) =
             py_round (max (route_data.distance_miles rd * 2.0 + weight_lbs r * 0.50) 500.0) 2
         \<and> 500.0 \<le> base_rate (breakdown q))"
proof -
  obtain rd where rd: "get_mapbox_distance e (origin_zip r) (destination_zip r) = Some rd"
    using get_mapbox_distance_total by blast
  have "500 \<le> py_round (calc_base_rate (route_data.distance_miles rd) (weight_lbs r)) 2"
    by (rule py_round_ge_500) (simp add: calc_base_rate_def)
  then show ?thesis
    by (simp add: rd calculate_quote_eq [OF rd] calc_base_rate_def)
qed

theorem base_rate_floor_witness:
  "calc_base_rate 0 1 = 500 \<and> calc_base_rate 1000 800 = 2400
   \<and> (\<exists>q. calculate_quote env_no_key request_same_zip = Some q
         \<and> base_rate (breakdown q) = 500)"
proof -
  obtain q where q: "calculate_quote env_no_key request_same_zip = Some q"
    using base_rate_floor [of 0 1 env_no_key request_same_zip] by blast
  have "base_rate (breakdown q) = 500" using q by (auto simp: quote_same_zip)
  then show ?thesis
    using q base_rate_floor [of 0 1 env_no_key request_same_zip]
      base_rate_floor [of 1000 800 env_no_key request_same_zip]
    by auto
qed

subsection \<open>C3: the resolver always returns\<close>





subsection \<open>C4: the fallback distance\<close>

text \<open>
  The claim as written fails where a code is absent from the table: the fallback then
  returns the fixed pair of 1000 miles and 16 hours, which is no great-circle distance of
  the two codes, and 16 is not 1000 / 60.
\<close>

theorem fallback_placeholder_counterexample:
  "ZIP_DATABASE ''00000'' = None
   \<and> get_mapbox_distance env_no_key ''00000'' ''60601'' =
     Some \<lparr>route_data.distance_miles = 1000, route_data.duration_hours = 16,
           route_geometry = JNull\<rparr>
   \<and> (16::real) \<noteq> 1000 / 60"
  by (simp add: get_mapbox_distance_def env_no_key_def no_api_key_def
      fallback_distance_calculation_def zip_unknown)

text \<open>
  Claim C4, amended. For every pair of postal codes that are both in the location table,
  whenever the live routing service cannot be used (a response with a status other than
  200, a network error, or a missing credential), the resolver returns the great-circle
  distance of the haversine formula with Earth radius 3959 miles and
  \<open>duration_hours = distance_miles / 60\<close>. When either code is absent from the table it
  returns 1000.0 miles and 16.0 hours instead.
\<close>

theorem fallback_is_haversine:
  "(ZIP_DATABASE a = Some l1 \<and> ZIP_DATABASE b = Some l2 \<and> service_unusable e l1 l2 \<longrightarrow>
      get_mapbox_distance e a b =
        Some \<lparr>route_data.distance_miles = great_circle_miles (lat l1) (lon l1) (lat l2) (lon l2),
              route_data.duration_hours =
                great_circle_miles (lat l1) (lon l1) (lat l2) (lon l2) / 60,
              route_geometry = JNull\<rparr>)
   \<and> (ZIP_DATABASE a = None \<or> ZIP_DATABASE b = None \<longrightarrow>
      get_mapbox_distance e a b =
        Some \<lparr>route_data.distance_miles = 1000.0, route_data.duration_hours = 16.0,
              route_geometry = JNull\<rparr>)"
  by (auto simp: get_mapbox_distance_unusable get_mapbox_distance_unknown fallback_known
      fallback_unknown great_circle_miles_eq)

theorem fallback_is_haversine_witness:
  "service_unusable env_service_down
      \<lparr>city = ''Los Angeles'', state = ''CA'', lat = 34.0407, lon = - 118.2468\<rparr>
      \<lparr>city = ''Chicago'', state = ''IL'', lat = 41.8781, lon = - 87.6298\<rparr>
   \<and> get_mapbox_distance env_service_down ''90021'' ''60601'' =
        Some \<lparr>route_data.distance_miles = great_circle_miles 34.0407 (- 118.2468) 41.8781 (- 87.6298),
              route_data.duration_hours =
                great_circle_miles 34.0407 (- 118.2468) 41.8781 (- 87.6298) / 60,
              route_geometry = JNull\<rparr>
   \<and> get_mapbox_distance env_service_down ''00000'' ''60601'' =
        Some \<lparr>route_data.distance_miles = 1000.0, route_data.duration_hours = 16.0,
              route_geometry = JNull\<rparr>"
proof -
  have u: "service_unusable env_service_down
      \<lparr>city = ''Los Angeles'', state = ''CA'', lat = 34.0407, lon = - 118.2468\<rparr>
      \<lparr>city = ''Chicago'', state = ''IL'', lat = 41.8781, lon = - 87.6298\<rparr>"
    by (simp add: service_unusable_def env_service_down_def env_no_key_def)
  show ?thesis
    using u fallback_is_haversine [of "''90021''" _ "''60601''" _ env_service_down]
      fallback_is_haversine [of "''00000''" _ "''60601''" _ env_service_down]
    by (simp add: zip_known zip_unknown)
qed

subsection \<open>C5: the placeholder for unknown codes\<close>

text \<open>
  Claim C5. For every pair of postal codes of which at least one is absent from the
  location table, when no routing service is configured (the credential is unset or
  empty), the resolver returns exactly \<open>distance_miles = 1000.0\<close> and
  \<open>duration_hours = 16.0\<close>.
\<close>

theorem unknown_zip_placeholder:
  assumes "ZIP_DATABASE a = None \<or> ZIP_DATABASE b = None" and "no_api_key e"
  shows "get_mapbox_distance e a b =
     Some \<lparr>route_data.distance_miles = 1000.0, route_data.duration_hours = 16.0,
           route_geometry = JNull\<rparr>"
  using assms by (simp add: get_mapbox_distance_def fallback_unknown)

theorem unknown_zip_placeholder_witness:
  "(ZIP_DATABASE ''00000'' = None \<or> ZIP_DATABASE ''99999'' = None) \<and> no_api_key env_no_key
   \<and> get_mapbox_distance env_no_key ''00000'' ''99999'' =
     Some \<lparr>route_data.distance_miles = 1000.0, route_data.duration_hours = 16.0,
           route_geometry = JNull\<rparr>"
proof -
  have z: "ZIP_DATABASE ''00000'' = None \<or> ZIP_DATABASE ''99999'' = None"
    by (simp add: ZIP_DATABASE_def ZIP_TABLE_def)
  have k: "no_api_key env_no_key" by (simp add: no_api_key_def env_no_key_def)
  show ?thesis using z k unknown_zip_placeholder [OF z k] by simp
qed

subsection \<open>C6: transit days\<close>

text \<open>
  Claim C6. For every duration, the transit days are \<open>clamp (ceil (duration_hours / 8)) 1 7\<close>
  and so an integer between 1 and 7; in every quote the transit days of the response are
  that value of the resolved duration. No assumption on the duration is needed; in
  particular it holds for \<open>duration_hours \<ge> 0\<close>.
\<close>

theorem transit_days_clamped:
  "calc_transit_days hours = clamp \<lceil>hours / 8\<rceil> 1 7
   \<and> 1 \<le> calc_transit_days hours \<and> calc_transit_days hours \<le> 7
   \<and> (\<exists>rd q. get_mapbox_distance e (origin_zip r) (destination_zip r) = Some rd
         \<and> calculate_quote e r = Some q
         \<and> transit_days q = clamp \<lceil>route_data.duration_hours rd / 8\<rceil> 1 7
         \<and> 1 \<le> transit_days q \<and> transit_days q \<le> 7)"
proof -
  obtain rd where rd: "get_mapbox_distance e (origin_zip r) (destination_zip r) = Some rd"
    using get_mapbox_distance_total by blast
  have c: "calc_transit_days h = clamp \<lceil>h / 8\<rceil> 1 7
      \<and> 1 \<le> calc_transit_days h \<and> calc_transit_days h \<le> 7" for h
    by (simp add: calc_transit_days_def clamp_def)
  show ?thesis
    using c [of hours] c [of "route_data.duration_hours rd"]
    by (simp add: rd calculate_quote_eq [OF rd])
qed

theorem transit_days_clamped_witness:
  "calc_transit_days 0 = 1 \<and> calc_transit_days 16.5 = 3 \<and> calc_transit_days 100 = 7
   \<and> (\<exists>q. calculate_quote env_live request_heavy_reefer = Some q \<and> transit_days q = 4)"
proof -
  have c: "clamp \<lceil>(0::real) / 8\<rceil> 1 7 = 1" "clamp \<lceil>(16.5::real) / 8\<rceil> 1 7 = 3"
    "clamp \<lceil>(100::real) / 8\<rceil> 1 7 = 7"
    by (simp_all add: clamp_def)
  obtain q where q: "calculate_quote env_live request_heavy_reefer = Some q"
    using transit_days_clamped [of 0 env_live request_heavy_reefer] by blast
  have "transit_days q = 4" using q by (auto simp: quote_heavy_live)
  then show ?thesis
    using q c transit_days_clamped [of 0 env_live request_heavy_reefer]
      transit_days_clamped [of "16.5" env_live request_heavy_reefer]
      transit_days_clamped [of 100 env_live request_heavy_reefer]
    by auto
qed

subsection \<open>C7: fees for special services\<close>

lemma climate_control_requested:
  "(''climate_control'' \<in> set (normalized_services services))
     = (\<exists>s \<in> set services. replace_char CHR '' '' CHR ''_'' (lower s) = ''climate_control'')"
  unfolding normalized_services_def by (simp add: image_iff) metis

text \<open>
  Claim C7. In every quote the liftgate fee is 75.0 if the string \<^verbatim>\<open>liftgate\<close> is an element
  of the special services of the request, compared as it is and so case-sensitively, and
  0.0 otherwise; the climate control fee is 150.0 if some special service, after
  lower-casing and replacing spaces with underscores, equals \<^verbatim>\<open>climate_control\<close>, and 0.0
  otherwise.
\<close>

theorem special_service_fees:
  "\<exists>q. calculate_quote e r = Some q
     \<and> liftgate_fee (breakdown q) =
         (if ''liftgate'' \<in> set (special_services r) then 75.0 else 0.0)
     \<and> climate_control_fee (breakdown q) =
         (if \<exists>s \<in> set (special_services r).
               replace_char CHR '' '' CHR ''_'' (lower s) = ''climate_control''
          then 150.0 else 0.0)"
proof -
  obtain rd where rd: "get_mapbox_distance e (origin_zip r) (destination_zip r) = Some rd"
    using get_mapbox_distance_total by blast
  show ?thesis
    using climate_control_requested [of "special_services r"]
    by (simp add: calculate_quote_eq [OF rd] calc_liftgate_fee_def calc_climate_control_fee_def)
qed

theorem special_service_fees_witness:
  "(\<exists>q. calculate_quote env_no_key request_unknown_zips = Some q
      \<and> special_services request_unknown_zips = [''Climate Control'', ''Liftgate'']
      \<and> liftgate_fee (breakdown q) = 0.0 \<and> climate_control_fee (breakdown q) = 150.0)
   \<and> (\<exists>q. calculate_quote env_no_key request_la_chicago = Some q
      \<and> special_services request_la_chicago = [''liftgate'']
      \<and> liftgate_fee (breakdown q) = 75.0 \<and> climate_control_fee (breakdown q) = 0.0)"
  using special_service_fees [of env_no_key request_unknown_zips]
    special_service_fees [of env_no_key request_la_chicago]
  by (simp add: request_unknown_zips_def request_la_chicago_def lower_def lower_char_def
      replace_char_def)

subsection \<open>C8: equipment type\<close>

text \<open>
  Claim C8. In every quote the equipment type is \<^verbatim>\<open>flatbed\<close> if the weight exceeds 10000,
  else \<^verbatim>\<open>reefer\<close> if climate control is requested (some special service equals
  \<^verbatim>\<open>climate_control\<close> after lower-casing and replacing spaces with underscores), else
  \<^verbatim>\<open>dry_van\<close>; a weight above 10000 gives \<^verbatim>\<open>flatbed\<close> whatever the special services are.
\<close>

theorem equipment_type_priority:
  "\<exists>q. calculate_quote e r = Some q
     \<and> equipment_type q =
         (if weight_lbs r > 10000 then ''flatbed''
          else if \<exists>s \<in> set (special_services r).
                    replace_char CHR '' '' CHR ''_'' (lower s) = ''climate_control''
               then ''reefer''
               else ''dry_van'')
     \<and> (weight_lbs r > 10000 \<longrightarrow> equipment_type q = ''flatbed'')"
proof -
  obtain rd where rd: "get_mapbox_distance e (origin_zip r) (destination_zip r) = Some rd"
    using get_mapbox_distance_total by blast
  show ?thesis
    using climate_control_requested [of "special_services r"]
    by (simp add: calculate_quote_eq [OF rd] calc_equipment_type_def)
qed

theorem equipment_type_priority_witness:
  "weight_lbs request_heavy_reefer > 10000
   \<and> (\<exists>s \<in> set (special_services request_heavy_reefer).
         replace_char CHR '' '' CHR ''_'' (lower s) = ''climate_control'')
   \<and> (\<exists>q. calculate_quote env_live request_heavy_reefer = Some q
         \<and> equipment_type q = ''flatbed'')"
  using equipment_type_priority [of env_live request_heavy_reefer]
  by (simp add: request_heavy_reefer_def lower_def lower_char_def replace_char_def)

subsection \<open>C9: symmetry of the haversine fallback\<close>

text \<open>
  Claim C9. For every pair of postal codes A and B that are both in the location table,
  the fallback returns a result for (A, B) and for (B, A), and the two results have the
  same \<open>distance_miles\<close>.
\<close>

theorem haversine_fallback_symmetric:
  assumes "a \<in> dom ZIP_DATABASE" and "b \<in> dom ZIP_DATABASE"
  shows "\<exists>r1 r2. fallback_distance_calculation a b = Some r1
           \<and> fallback_distance_calculation b a = Some r2
           \<and> route_data.distance_miles r1 = route_data.distance_miles r2"
proof -
  obtain l1 l2 where l: "ZIP_DATABASE a = Some l1" "ZIP_DATABASE b = Some l2"
    using assms by auto
  show ?thesis
    by (simp add: fallback_known [OF l] fallback_known [OF l(2) l(1)] haversine_a_sym [of l1 l2])
qed

theorem haversine_fallback_symmetric_witness:
  "''90021'' \<in> dom ZIP_DATABASE \<and> ''60601'' \<in> dom ZIP_DATABASE
   \<and> (\<exists>r1 r2. fallback_distance_calculation ''90021'' ''60601'' = Some r1
           \<and> fallback_distance_calculation ''60601'' ''90021'' = Some r2
           \<and> route_data.distance_miles r1 = route_data.distance_miles r2)"
proof -
  have a: "''90021'' \<in> dom ZIP_DATABASE" and b: "''60601'' \<in> dom ZIP_DATABASE"
    by (simp_all add: dom_def zip_known)
  show ?thesis using a b haversine_fallback_symmetric [OF a b] by blast
qed

subsection \<open>C10: the map URL carries the access token\<close>

lemma generate_static_map_url_Some:
  assumes "\<not> no_api_key e" and "ZIP_DATABASE a = Some l1" and "ZIP_DATABASE b = Some l2"
  shows "\<exists>pre. generate_static_map_url e a b g = Some (pre @ ''?access_token='' @ api_key e)"
proof -
  have "\<exists>pre. x1 @ x2 @ x3 @ x4 @ x5 @ x6 @ x7 @ x8 @ x9 @ x10 @ x11 @ x12 @ x13 @ k
      = pre @ x13 @ k" for x1 x2 x3 x4 x5 x6 x7 x8 x9 x10 x11 x12 x13 k :: string
    by (metis append.assoc)
  then show ?thesis
    using assms unfolding generate_static_map_url_def Let_def
    by (simp only: if_False option.case prod.case option.inject)
qed

lemma generate_static_map_url_None:
  assumes "no_api_key e \<or> ZIP_DATABASE a = None \<or> ZIP_DATABASE b = None"
  shows "generate_static_map_url e a b g = None"
  using assms unfolding generate_static_map_url_def
  by (auto split: option.splits)

lemma api_key_configured:
  assumes "\<not> no_api_key e"
  shows "MAPBOX_API_KEY e = Some (api_key e) \<and> api_key e \<noteq> []"
  using assms by (auto simp: no_api_key_def api_key_def split: option.splits)

text \<open>
  Claim C10. Whenever the API key is configured and both postal codes of the request are
  in the location table, the quote carries a route map URL, and that URL ends with
  \<^verbatim>\<open>?access_token=\<close> followed by the configured access token as it is: the quote hands
  the credential of the service to whoever receives it. In every other case the quote
  carries no map URL.
\<close>

theorem route_map_url_discloses_token:
  "(\<not> no_api_key e \<and> ZIP_DATABASE (origin_zip r) \<noteq> None
      \<and> ZIP_DATABASE (destination_zip r) \<noteq> None \<longrightarrow>
      (\<exists>q pre. calculate_quote e r = Some q
         \<and> route_map_url q = Some (pre @ ''?access_token='' @ api_key e)
         \<and> MAPBOX_API_KEY e = Some (api_key e) \<and> api_key e \<noteq> []))
   \<and> (no_api_key e \<or> ZIP_DATABASE (origin_zip r) = None
      \<or> ZIP_DATABASE (destination_zip r) = None \<longrightarrow>
      (\<exists>q. calculate_quote e r = Some q \<and> route_map_url q = None))"
proof -
  obtain rd where rd: "get_mapbox_distance e (origin_zip r) (destination_zip r) = Some rd"
    using get_mapbox_distance_total by blast
  have "\<exists>pre. generate_static_map_url e (origin_zip r) (destination_zip r) (route_geometry rd)
        = Some (pre @ ''?access_token='' @ api_key e)"
    if "\<not> no_api_key e" "ZIP_DATABASE (origin_zip r) \<noteq> None"
       "ZIP_DATABASE (destination_zip r) \<noteq> None"
    using that generate_static_map_url_Some [of e] by auto
  moreover have "generate_static_map_url e (origin_zip r) (destination_zip r) (route_geometry rd)
        = None"
    if "no_api_key e \<or> ZIP_DATABASE (origin_zip r) = None
        \<or> ZIP_DATABASE (destination_zip r) = None"
    using that by (rule generate_static_map_url_None)
  ultimately show ?thesis
    using api_key_configured [of e] by (auto simp: calculate_quote_eq [OF rd])
qed

theorem route_map_url_discloses_token_witness:
  "\<not> no_api_key env_live \<and> ZIP_DATABASE (origin_zip request_heavy_reefer) \<noteq> None
   \<and> ZIP_DATABASE (destination_zip request_heavy_reefer) \<noteq> None
   \<and> (\<exists>q pre. calculate_quote env_live request_heavy_reefer = Some q
         \<and> route_map_url q = Some (pre @ ''?access_token=pk.test''))
   \<and> no_api_key env_no_key
   \<and> (\<exists>q. calculate_quote env_no_key request_heavy_reefer = Some q \<and> route_map_url q = None)"
proof -
  have k: "\<not> no_api_key env_live" "api_key env_live = ''pk.test''" "no_api_key env_no_key"
    by (simp_all add: no_api_key_def api_key_def env_live_def env_no_key_def)
  have z: "ZIP_DATABASE (origin_zip request_heavy_reefer) \<noteq> None"
    "ZIP_DATABASE (destination_zip request_heavy_reefer) \<noteq> None"
    by (simp_all add: request_heavy_reefer_def zip_known)
  show ?thesis
    using k z route_map_url_discloses_token [of env_live request_heavy_reefer]
      route_map_url_discloses_token [of env_no_key request_heavy_reefer]
    by auto
qed

end
